theory Spec2Isabelle
  imports Main "HOL-Library.Sublist" "HOL-Library.Product_Lexorder"
begin

section \<open>Data model\<close>

text \<open>
  The records handled by \<^verbatim>\<open>filter_results\<close> are the dictionaries that
  \<^verbatim>\<open>json.loads\<close> returns for the PowerShell output, or the ones built by
  \<^verbatim>\<open>get_file_info_cross_platform\<close>. The values found under their keys are strings
  (\<^verbatim>\<open>FullName\<close> and the three timestamps), integers or \<^verbatim>\<open>None\<close>
  (\<^verbatim>\<open>Length\<close>).
\<close>

datatype pyvalue = PStr string | PInt int | PNone

type_synonym item = "(string \<times> pyvalue) list"

text \<open>\<^verbatim>\<open>item.get(k, d)\<close>: the value under the key, the default when the key is absent.\<close>

definition dict_get :: "item \<Rightarrow> string \<Rightarrow> pyvalue \<Rightarrow> pyvalue" where
  "dict_get item k d = (case map_of item k of None \<Rightarrow> d | Some v \<Rightarrow> v)"

text \<open>The exceptions that can leave \<^verbatim>\<open>filter_results\<close>.\<close>

datatype error =
    ReError          \<comment> \<open>\<^verbatim>\<open>re.error\<close>: the pattern does not compile\<close>
  | ValueError       \<comment> \<open>\<^verbatim>\<open>datetime.fromisoformat\<close> on a string it cannot parse\<close>
  | TypeError        \<comment> \<open>\<^verbatim>\<open>os.path.basename\<close> of a non-string; an aware datetime compared with a naive one\<close>
  | AttributeError   \<comment> \<open>\<^verbatim>\<open>.replace\<close> on a value that is not a string\<close>

text \<open>
  A \<^verbatim>\<open>date\<close> is (year, month, day), a time of day is (hour, minute, second,
  microsecond). Python orders both field by field, which is the lexicographic order of
  the tuples. A \<^verbatim>\<open>datetime\<close> is naive when \<open>tzinfo\<close> is \<open>None\<close>, aware otherwise.
\<close>

type_synonym date = "nat \<times> nat \<times> nat"

type_synonym time_of_day = "nat \<times> nat \<times> nat \<times> nat"

record datetime =
  dt_date :: date
  dt_time :: time_of_day
  tzinfo :: "int option"

text \<open>\<^verbatim>\<open>datetime.min.time()\<close> and \<^verbatim>\<open>datetime.max.time()\<close>.\<close>

definition time_min :: time_of_day where
  "time_min = (0, 0, 0, 0)"

definition time_max :: time_of_day where
  "time_max = (23, 59, 59, 999999)"

text \<open>\<^verbatim>\<open>datetime.combine(d, t)\<close> with a naive time: a naive datetime.\<close>

definition combine :: "date \<Rightarrow> time_of_day \<Rightarrow> datetime" where
  "combine d t = \<lparr>dt_date = d, dt_time = t, tzinfo = None\<rparr>"

definition naive_key :: "datetime \<Rightarrow> date \<times> time_of_day" where
  "naive_key t = (dt_date t, dt_time t)"

text \<open>
  \<^verbatim>\<open>a < b\<close> and \<^verbatim>\<open>a > b\<close> where \<open>b\<close> is naive, as every right operand of
  \<^verbatim>\<open>filter_results\<close> is (it comes from \<^verbatim>\<open>datetime.combine\<close>): Python raises
  \<^verbatim>\<open>TypeError\<close> when \<open>a\<close> is aware, and compares the fields otherwise.
\<close>

definition dt_lt :: "datetime \<Rightarrow> datetime \<Rightarrow> error + bool" where
  "dt_lt a b = (case tzinfo a of Some off \<Rightarrow> Inl TypeError | None \<Rightarrow> Inr (naive_key a < naive_key b))"

definition dt_gt :: "datetime \<Rightarrow> datetime \<Rightarrow> error + bool" where
  "dt_gt a b = (case tzinfo a of Some off \<Rightarrow> Inl TypeError | None \<Rightarrow> Inr (naive_key b < naive_key a))"

section \<open>The library functions the filter calls\<close>

text \<open>
  \<^verbatim>\<open>filter_results\<close> calls \<^verbatim>\<open>re.search\<close>, \<^verbatim>\<open>os.path.basename\<close> and
  \<^verbatim>\<open>datetime.fromisoformat\<close> of the Python standard library. They are parameters of
  the model: \<^verbatim>\<open>re.search(p, s, flags)\<close> is \<^verbatim>\<open>re.compile(p, flags).search(s)\<close>, where
  compiling fails (\<open>None\<close>, for \<^verbatim>\<open>re.error\<close>) or gives a compiled pattern, and
  searching tells whether there is a match; \<^verbatim>\<open>fromisoformat\<close> fails (\<open>None\<close>, for
  \<^verbatim>\<open>ValueError\<close>) or gives a datetime.
\<close>

datatype re_flag = NOFLAG | IGNORECASE

record 'rx pylib =
  re_compile :: "string \<Rightarrow> re_flag \<Rightarrow> 'rx option"
  re_search :: "'rx \<Rightarrow> string \<Rightarrow> bool"
  basename :: "string \<Rightarrow> string"
  fromisoformat :: "string \<Rightarrow> datetime option"

text \<open>\<^verbatim>\<open>s.replace('Z', '+00:00')\<close>: every \<open>Z\<close> of the string is replaced.\<close>

definition replace_Z :: "string \<Rightarrow> string" where
  "replace_Z s = concat (map (\<lambda>c. if c = CHR ''Z'' then ''+00:00'' else [c]) s)"

section \<open>filter_results\<close>

definition bind_err :: "error + 'a \<Rightarrow> ('a \<Rightarrow> error + 'b) \<Rightarrow> error + 'b" where
  "bind_err m f = (case m of Inl e \<Rightarrow> Inl e | Inr x \<Rightarrow> f x)"

text \<open>
  The name filter of one loop round (source lines 114 to 116). The result is whether the
  round goes on (\<open>False\<close> is the \<^verbatim>\<open>continue\<close>). A pattern that is \<^verbatim>\<open>None\<close> or
  empty is falsy and skips the test. The argument \<^verbatim>\<open>os.path.basename(...)\<close> is
  evaluated before \<^verbatim>\<open>re.search\<close> is entered, so a \<^verbatim>\<open>FullName\<close> that is not a
  string raises before the pattern is compiled.
\<close>

definition name_check :: "'rx pylib \<Rightarrow> string option \<Rightarrow> item \<Rightarrow> error + bool" where
  "name_check L name_pattern item =
     (case name_pattern of
        None \<Rightarrow> Inr True
      | Some p \<Rightarrow>
          if p = [] then Inr True
          else (case dict_get item ''FullName'' (PStr []) of
                  PStr full \<Rightarrow>
                    (case re_compile L p IGNORECASE of
                       None \<Rightarrow> Inl ReError
                     | Some rx \<Rightarrow> Inr (re_search L rx (basename L full)))
                | PInt n \<Rightarrow> Inl TypeError
                | PNone \<Rightarrow> Inl TypeError))"

text \<open>
  \<^verbatim>\<open>datetime.fromisoformat(item.get(k, '').replace('Z', '+00:00'))\<close>
  (source lines 119 to 121).
\<close>

definition parse_time :: "'rx pylib \<Rightarrow> item \<Rightarrow> string \<Rightarrow> error + datetime" where
  "parse_time L item k =
     (case dict_get item k (PStr []) of
        PStr s \<Rightarrow>
          (case fromisoformat L (replace_Z s) of
             None \<Rightarrow> Inl ValueError
           | Some t \<Rightarrow> Inr t)
      | PInt n \<Rightarrow> Inl AttributeError
      | PNone \<Rightarrow> Inl AttributeError)"

text \<open>
  \<^verbatim>\<open>d and t < datetime.combine(d, datetime.min.time())\<close> and
  \<^verbatim>\<open>d and t > datetime.combine(d, datetime.max.time())\<close>: a bound that is \<^verbatim>\<open>None\<close>
  is falsy and the comparison is not evaluated; a date is always truthy.
\<close>

definition before_from :: "date option \<Rightarrow> datetime \<Rightarrow> error + bool" where
  "before_from date_from t =
     (case date_from of None \<Rightarrow> Inr False | Some d \<Rightarrow> dt_lt t (combine d time_min))"

definition after_to :: "date option \<Rightarrow> datetime \<Rightarrow> error + bool" where
  "after_to date_to t =
     (case date_to of None \<Rightarrow> Inr False | Some d \<Rightarrow> dt_gt t (combine d time_max))"

text \<open>
  The two tests of one date range (for example source lines 124 to 127): \<open>True\<close> when
  neither \<^verbatim>\<open>continue\<close> is taken.
\<close>

definition range_check :: "date option \<Rightarrow> date option \<Rightarrow> datetime \<Rightarrow> error + bool" where
  "range_check date_from date_to t =
     bind_err (before_from date_from t) (\<lambda>b.
       if b then Inr False
       else bind_err (after_to date_to t) (\<lambda>a. Inr (\<not> a)))"

text \<open>
  One round of the loop (source lines 113 to 141): \<open>Inr True\<close> when the item is
  appended, \<open>Inr False\<close> when a \<^verbatim>\<open>continue\<close> is taken, \<open>Inl e\<close> when an exception
  leaves the function. The three timestamps are converted before any date test, whatever
  bounds are set.
\<close>

definition keep_item ::
  "'rx pylib \<Rightarrow> string option \<Rightarrow> date option \<Rightarrow> date option \<Rightarrow> date option \<Rightarrow> date option
     \<Rightarrow> date option \<Rightarrow> date option \<Rightarrow> item \<Rightarrow> error + bool" where
  "keep_item L name_pattern creation_date_from creation_date_to modified_date_from
       modified_date_to accessed_date_from accessed_date_to item =
     bind_err (name_check L name_pattern item) (\<lambda>named.
       if \<not> named then Inr False
       else
         bind_err (parse_time L item ''CreationTime'') (\<lambda>creation_time.
         bind_err (parse_time L item ''LastWriteTime'') (\<lambda>modified_time.
         bind_err (parse_time L item ''LastAccessTime'') (\<lambda>accessed_time.
         bind_err (range_check creation_date_from creation_date_to creation_time) (\<lambda>c.
           if \<not> c then Inr False
           else
             bind_err (range_check modified_date_from modified_date_to modified_time) (\<lambda>m.
               if \<not> m then Inr False
               else range_check accessed_date_from accessed_date_to accessed_time))))))"

text \<open>The loop over \<^verbatim>\<open>results\<close>, with \<^verbatim>\<open>filtered_results\<close> as the accumulator.\<close>

fun filter_loop ::
  "'rx pylib \<Rightarrow> string option \<Rightarrow> date option \<Rightarrow> date option \<Rightarrow> date option \<Rightarrow> date option
     \<Rightarrow> date option \<Rightarrow> date option \<Rightarrow> item list \<Rightarrow> item list \<Rightarrow> error + item list" where
  "filter_loop L np cf ct mf mt af at [] filtered_results = Inr filtered_results"
| "filter_loop L np cf ct mf mt af at (item # rest) filtered_results =
     (case keep_item L np cf ct mf mt af at item of
        Inl e \<Rightarrow> Inl e
      | Inr keep \<Rightarrow>
          filter_loop L np cf ct mf mt af at rest
            (if keep then filtered_results @ [item] else filtered_results))"

definition filter_results ::
  "'rx pylib \<Rightarrow> item list \<Rightarrow> string option \<Rightarrow> date option \<Rightarrow> date option \<Rightarrow> date option
     \<Rightarrow> date option \<Rightarrow> date option \<Rightarrow> date option \<Rightarrow> error + item list" where
  "filter_results L results name_pattern creation_date_from creation_date_to
       modified_date_from modified_date_to accessed_date_from accessed_date_to =
     filter_loop L name_pattern creation_date_from creation_date_to modified_date_from
       modified_date_to accessed_date_from accessed_date_to results []"

section \<open>An instance of the library, for the examples\<close>

text \<open>
  The theorems below hold for every library. The examples need one to compute with. This
  one covers the inputs the examples use and says so where it stops:
  \<^item> \<open>posix_basename\<close> is \<^verbatim>\<open>posixpath.basename\<close>: what follows the last slash;
  \<^item> a pattern made of letters, digits and underscores only is a literal, searched
    anywhere in the subject, with ASCII letters compared without case under
    \<open>IGNORECASE\<close>, as \<^verbatim>\<open>re\<close> does for such a pattern. Any other pattern is outside
    the fragment and is rejected by \<open>lit_compile\<close>: this agrees with \<^verbatim>\<open>re\<close> on the
    pattern \<^verbatim>\<open>[\<close> (an unterminated character set), the only such pattern the examples
    use, and says nothing about Python for the others;
  \<^item> \<open>iso_fromisoformat\<close> reads what \<^verbatim>\<open>datetime.isoformat()\<close> writes,
    \<^verbatim>\<open>YYYY-MM-DDTHH:MM:SS\<close> with an optional \<^verbatim>\<open>.ffffff\<close>, followed or not by an
    offset \<^verbatim>\<open>+HH:MM\<close> or \<^verbatim>\<open>-HH:MM\<close> (an aware datetime). Every other string is
    rejected: this agrees with Python on the empty string, the default of a missing key,
    and is outside the fragment otherwise.
\<close>

definition posix_basename :: "string \<Rightarrow> string" where
  "posix_basename p = rev (takeWhile (\<lambda>c. c \<noteq> CHR ''/'') (rev p))"

definition ascii_lower :: "char \<Rightarrow> char" where
  "ascii_lower c =
     (let n = (of_char c :: nat)
      in if 65 \<le> n \<and> n \<le> 90
         then (case c of Char b0 b1 b2 b3 b4 b5 b6 b7 \<Rightarrow> Char b0 b1 b2 b3 b4 True b6 b7)
         else c)"

definition is_word_char :: "char \<Rightarrow> bool" where
  "is_word_char c =
     (let n = (of_char c :: nat)
      in (48 \<le> n \<and> n \<le> 57) \<or> (65 \<le> n \<and> n \<le> 90) \<or> (97 \<le> n \<and> n \<le> 122) \<or> n = 95)"

fun contains :: "string \<Rightarrow> string \<Rightarrow> bool" where
  "contains p [] = (p = [])"
| "contains p (c # cs) = (prefix p (c # cs) \<or> contains p cs)"

datatype lit_rx = LitRx string re_flag

definition lit_compile :: "string \<Rightarrow> re_flag \<Rightarrow> lit_rx option" where
  "lit_compile p f = (if list_all is_word_char p then Some (LitRx p f) else None)"

fun lit_search :: "lit_rx \<Rightarrow> string \<Rightarrow> bool" where
  "lit_search (LitRx p IGNORECASE) s = contains (map ascii_lower p) (map ascii_lower s)"
| "lit_search (LitRx p NOFLAG) s = contains p s"

definition digit_val :: "char \<Rightarrow> nat option" where
  "digit_val c =
     (let n = (of_char c :: nat) in if 48 \<le> n \<and> n \<le> 57 then Some (n - 48) else None)"

fun digits_val :: "string \<Rightarrow> nat \<Rightarrow> nat option" where
  "digits_val [] acc = Some acc"
| "digits_val (c # cs) acc =
     (case digit_val c of None \<Rightarrow> None | Some d \<Rightarrow> digits_val cs (10 * acc + d))"

text \<open>A field of exactly \<open>n\<close> decimal digits.\<close>

definition number :: "nat \<Rightarrow> string \<Rightarrow> nat option" where
  "number n s = (if length s = n then digits_val s 0 else None)"

definition days_in_month :: "nat \<Rightarrow> nat \<Rightarrow> nat" where
  "days_in_month y m =
     (if m = 2
      then (if y mod 400 = 0 then 29 else if y mod 100 = 0 then 28 else if y mod 4 = 0 then 29 else 28)
      else if m = 4 \<or> m = 6 \<or> m = 9 \<or> m = 11 then 30 else 31)"

definition iso_date :: "string \<Rightarrow> date option" where
  "iso_date s =
     (case (number 4 (take 4 s), number 2 (take 2 (drop 5 s)), number 2 (drop 8 s)) of
        (Some y, Some m, Some d) \<Rightarrow>
          if take 1 (drop 4 s) = ''-'' \<and> take 1 (drop 7 s) = ''-'' \<and> 1 \<le> y \<and> 1 \<le> m \<and> m \<le> 12
             \<and> 1 \<le> d \<and> d \<le> days_in_month y m
          then Some (y, m, d) else None
      | _ \<Rightarrow> None)"

definition iso_time :: "string \<Rightarrow> time_of_day option" where
  "iso_time s =
     (case (number 2 (take 2 s), number 2 (take 2 (drop 3 s)), number 2 (take 2 (drop 6 s)),
            if drop 8 s = [] then Some 0
            else if take 1 (drop 8 s) = ''.'' then number 6 (drop 9 s) else None) of
        (Some h, Some mi, Some sec, Some us) \<Rightarrow>
          if take 1 (drop 2 s) = '':'' \<and> take 1 (drop 5 s) = '':'' \<and> h < 24 \<and> mi < 60 \<and> sec < 60
          then Some (h, mi, sec, us) else None
      | _ \<Rightarrow> None)"

text \<open>The offset in seconds; the empty string is the absent offset of a naive datetime.\<close>

definition iso_offset :: "string \<Rightarrow> int option option" where
  "iso_offset s =
     (if s = [] then Some None
      else (case (number 2 (take 2 (drop 1 s)), number 2 (drop 4 s)) of
              (Some h, Some mi) \<Rightarrow>
                if take 1 (drop 3 s) = '':'' \<and> h < 24 \<and> mi < 60
                then (if take 1 s = ''+'' then Some (Some (int (3600 * h + 60 * mi)))
                      else if take 1 s = ''-'' then Some (Some (- int (3600 * h + 60 * mi)))
                      else None)
                else None
            | _ \<Rightarrow> None))"

definition iso_fromisoformat :: "string \<Rightarrow> datetime option" where
  "iso_fromisoformat s =
     (let rest = drop 11 s;
          is_sign = (\<lambda>c. c = CHR ''+'' \<or> c = CHR ''-'')
      in if take 1 (drop 10 s) \<noteq> ''T'' then None
         else (case (iso_date (take 10 s), iso_time (takeWhile (\<lambda>c. \<not> is_sign c) rest),
                     iso_offset (dropWhile (\<lambda>c. \<not> is_sign c) rest)) of
                 (Some d, Some t, Some tz) \<Rightarrow> Some \<lparr>dt_date = d, dt_time = t, tzinfo = tz\<rparr>
               | _ \<Rightarrow> None))"

definition lit_lib :: "lit_rx pylib" where
  "lit_lib = \<lparr>re_compile = lit_compile, re_search = lit_search, basename = posix_basename,
              fromisoformat = iso_fromisoformat\<rparr>"

text \<open>The records of the examples.\<close>

definition mk_item :: "string \<Rightarrow> string \<Rightarrow> string \<Rightarrow> string \<Rightarrow> item" where
  "mk_item full created modified accessed =
     [(''FullName'', PStr full), (''CreationTime'', PStr created),
      (''LastWriteTime'', PStr modified), (''LastAccessTime'', PStr accessed),
      (''Length'', PInt 1024)]"

definition alpha_txt :: item where
  "alpha_txt = mk_item ''/data/alpha.txt'' ''2022-03-01T00:00:00'' ''2022-03-01T00:00:00''
     ''2022-03-01T00:00:00''"

definition beta_txt :: item where
  "beta_txt = mk_item ''/data/beta.txt'' ''2022-06-15T00:00:00'' ''2022-06-15T00:00:00''
     ''2022-06-15T00:00:00''"

definition report_pdf :: item where
  "report_pdf = mk_item ''/data/Report_2022.pdf'' ''2021-12-31T09:00:00''
     ''2022-01-01T23:59:59.999999'' ''2022-01-05T08:30:00''"

definition next_day_pdf :: item where
  "next_day_pdf = mk_item ''/data/next.pdf'' ''2021-12-31T09:00:00'' ''2022-01-02T00:00:00''
     ''2022-01-05T08:30:00''"

text \<open>A directory entry whose \<^verbatim>\<open>CreationTime\<close> key is missing.\<close>

definition no_creation :: item where
  "no_creation =
     [(''FullName'', PStr ''/data/old''), (''LastWriteTime'', PStr ''2022-01-01T12:00:00''),
      (''LastAccessTime'', PStr ''2022-01-01T12:00:00''), (''Length'', PNone)]"

text \<open>An entry whose timestamps carry the \<^verbatim>\<open>Z\<close> suffix of UTC.\<close>

definition utc_txt :: item where
  "utc_txt = mk_item ''/data/utc.txt'' ''2022-03-01T00:00:00Z'' ''2022-03-01T00:00:00Z''
     ''2022-03-01T00:00:00Z''"

text \<open>An entry whose \<^verbatim>\<open>LastAccessTime\<close> is not a timestamp.\<close>

definition bad_access :: item where
  "bad_access = mk_item ''/data/odd.bin'' ''2021-12-31T09:00:00'' ''2022-01-01T12:00:00'' ''n/a''"

section \<open>The statements of the specification\<close>

text \<open>
  The range predicate in the words of the specification: with a lower bound, the timestamp
  is at or after 00:00:00.000 of that day; with an upper bound, it is at or before
  23:59:59.999999 of that day; an absent bound does not constrain.
\<close>

definition spec_in_range :: "date option \<Rightarrow> date option \<Rightarrow> datetime \<Rightarrow> bool" where
  "spec_in_range date_from date_to t =
     ((case date_from of None \<Rightarrow> True | Some d \<Rightarrow> (d, time_min) \<le> naive_key t) \<and>
      (case date_to of None \<Rightarrow> True | Some d \<Rightarrow> naive_key t \<le> (d, time_max)))"

text \<open>The timestamp of a record under a key, when it has one that parses.\<close>

definition timestamp :: "'rx pylib \<Rightarrow> item \<Rightarrow> string \<Rightarrow> datetime option" where
  "timestamp L item k = (case parse_time L item k of Inl e \<Rightarrow> None | Inr t \<Rightarrow> Some t)"

definition spec_range_holds ::
  "'rx pylib \<Rightarrow> date option \<Rightarrow> date option \<Rightarrow> item \<Rightarrow> string \<Rightarrow> bool" where
  "spec_range_holds L date_from date_to item k =
     (case timestamp L item k of None \<Rightarrow> False | Some t \<Rightarrow> spec_in_range date_from date_to t)"

text \<open>The three timestamps of a record parse; they parse to naive datetimes.\<close>

definition timestamps_parse :: "'rx pylib \<Rightarrow> item \<Rightarrow> bool" where
  "timestamps_parse L item =
     (timestamp L item ''CreationTime'' \<noteq> None \<and> timestamp L item ''LastWriteTime'' \<noteq> None
      \<and> timestamp L item ''LastAccessTime'' \<noteq> None)"

definition is_naive :: "datetime option \<Rightarrow> bool" where
  "is_naive t = (case t of None \<Rightarrow> False | Some dt \<Rightarrow> tzinfo dt = None)"

definition timestamps_naive :: "'rx pylib \<Rightarrow> item \<Rightarrow> bool" where
  "timestamps_naive L item =
     (is_naive (timestamp L item ''CreationTime'') \<and> is_naive (timestamp L item ''LastWriteTime'')
      \<and> is_naive (timestamp L item ''LastAccessTime''))"

text \<open>
  A timestamp field that is missing or malformed: the key is absent (the default is the
  empty string) or holds a string, and \<^verbatim>\<open>fromisoformat\<close> rejects it.
\<close>

definition malformed :: "'rx pylib \<Rightarrow> item \<Rightarrow> string \<Rightarrow> bool" where
  "malformed L item k =
     (case dict_get item k (PStr []) of
        PStr s \<Rightarrow> fromisoformat L (replace_Z s) = None
      | PInt n \<Rightarrow> False
      | PNone \<Rightarrow> False)"

text \<open>The value under a key is a string, or the key is absent.\<close>

definition str_or_missing :: "item \<Rightarrow> string \<Rightarrow> bool" where
  "str_or_missing item k =
     (case dict_get item k (PStr []) of PStr s \<Rightarrow> True | PInt n \<Rightarrow> False | PNone \<Rightarrow> False)"

text \<open>\<^verbatim>\<open>item.get('FullName', '')\<close> when it is a string.\<close>

definition full_name :: "item \<Rightarrow> string" where
  "full_name item =
     (case dict_get item ''FullName'' (PStr []) of PStr s \<Rightarrow> s | PInt n \<Rightarrow> [] | PNone \<Rightarrow> [])"

text \<open>
  A date range \<open>[from', to']\<close> lies within \<open>[from, to]\<close>: \<open>from \<le> from'\<close> and
  \<open>to' \<le> to\<close>, an absent bound being the widest on its side.
\<close>

definition from_le :: "date option \<Rightarrow> date option \<Rightarrow> bool" where
  "from_le f f' =
     (case f of None \<Rightarrow> True | Some d \<Rightarrow> (case f' of None \<Rightarrow> False | Some d' \<Rightarrow> d \<le> d'))"

definition to_le :: "date option \<Rightarrow> date option \<Rightarrow> bool" where
  "to_le t' t =
     (case t of None \<Rightarrow> True | Some d \<Rightarrow> (case t' of None \<Rightarrow> False | Some d' \<Rightarrow> d' \<le> d))"

definition range_within :: "date option \<Rightarrow> date option \<Rightarrow> date option \<Rightarrow> date option \<Rightarrow> bool" where
  "range_within f' t' f t = (from_le f f' \<and> to_le t' t)"

text \<open>Running \<^verbatim>\<open>filter_results\<close> again on what it returned, an exception passing through.\<close>

definition apply_twice ::
  "'rx pylib \<Rightarrow> item list \<Rightarrow> string option \<Rightarrow> date option \<Rightarrow> date option \<Rightarrow> date option
     \<Rightarrow> date option \<Rightarrow> date option \<Rightarrow> date option \<Rightarrow> error + item list" where
  "apply_twice L results np cf ct mf mt af at =
     bind_err (filter_results L results np cf ct mf mt af at)
       (\<lambda>out. filter_results L out np cf ct mf mt af at)"

section \<open>The loop\<close>

lemma filter_loop_Inr_iff:
  "filter_loop L np cf ct mf mt af at rs acc = Inr out \<longleftrightarrow>
     (\<forall>r \<in> set rs. \<not> isl (keep_item L np cf ct mf mt af at r)) \<and>
     out = acc @ filter (\<lambda>r. keep_item L np cf ct mf mt af at r = Inr True) rs"
proof (induction rs arbitrary: acc)
  case Nil
  show ?case by auto
next
  case (Cons r rs)
  show ?case
  proof (cases "keep_item L np cf ct mf mt af at r")
    case (Inl e)
    then show ?thesis by simp
  next
    case (Inr keep)
    then show ?thesis using Cons.IH by (cases keep) auto
  qed
qed

lemma filter_results_Inr_iff:
  "filter_results L rs np cf ct mf mt af at = Inr out \<longleftrightarrow>
     (\<forall>r \<in> set rs. \<not> isl (keep_item L np cf ct mf mt af at r)) \<and>
     out = filter (\<lambda>r. keep_item L np cf ct mf mt af at r = Inr True) rs"
  by (simp add: filter_results_def filter_loop_Inr_iff)

lemma filter_loop_raises:
  assumes "\<forall>x \<in> set pre. \<not> isl (keep_item L np cf ct mf mt af at x)"
    and "keep_item L np cf ct mf mt af at r = Inl e"
  shows "filter_loop L np cf ct mf mt af at (pre @ r # post) acc = Inl e"
  using assms
proof (induction pre arbitrary: acc)
  case Nil
  then show ?case by simp
next
  case (Cons x pre)
  then obtain b where "keep_item L np cf ct mf mt af at x = Inr b"
    by (cases "keep_item L np cf ct mf mt af at x") auto
  with Cons show ?case by simp
qed

lemma filter_loop_skips:
  assumes "keep_item L np cf ct mf mt af at r = Inr False"
  shows "filter_loop L np cf ct mf mt af at (pre @ r # post) acc =
         filter_loop L np cf ct mf mt af at (pre @ post) acc"
proof (induction pre arbitrary: acc)
  case Nil
  show ?case using assms by simp
next
  case (Cons x pre)
  then show ?case by (simp split: sum.splits)
qed

lemma keep_item_empty_pattern:
  "keep_item L (Some []) cf ct mf mt af at = keep_item L None cf ct mf mt af at"
  by (rule ext) (simp add: keep_item_def name_check_def)

lemma filter_loop_keep_cong:
  assumes "keep_item L np cf ct mf mt af at = keep_item L np' cf' ct' mf' mt' af' at'"
  shows "filter_loop L np cf ct mf mt af at rs acc = filter_loop L np' cf' ct' mf' mt' af' at' rs acc"
  by (induction rs arbitrary: acc) (simp_all add: assms split: sum.splits)

section \<open>Date ranges\<close>

lemma range_check_naive:
  "tzinfo x = None \<Longrightarrow> range_check f t x = Inr (spec_in_range f t x)"
  by (auto simp: range_check_def before_from_def after_to_def dt_lt_def dt_gt_def bind_err_def
      spec_in_range_def combine_def naive_key_def not_less split: option.splits)

lemma range_check_unbounded: "range_check None None x = Inr True"
  by (simp add: range_check_def before_from_def after_to_def bind_err_def)

lemma range_check_True_iff:
  "range_check f t x = Inr True \<longleftrightarrow>
     (tzinfo x = None \<or> (f = None \<and> t = None)) \<and> spec_in_range f t x"
  by (auto simp: range_check_def before_from_def after_to_def dt_lt_def dt_gt_def bind_err_def
      spec_in_range_def combine_def naive_key_def not_less split: option.splits)

lemma spec_in_range_mono:
  assumes "range_within f' t' f t" and "spec_in_range f' t' x"
  shows "spec_in_range f t x"
proof -
  have lo: "(case f of None \<Rightarrow> True | Some d \<Rightarrow> (d, time_min) \<le> naive_key x)"
  proof (cases f)
    case None
    then show ?thesis by simp
  next
    case (Some d)
    with assms(1) obtain d' where f': "f' = Some d'" and le: "d \<le> d'"
      by (auto simp: range_within_def from_le_def split: option.splits)
    from assms(2) f' have "(d', time_min) \<le> naive_key x"
      by (simp add: spec_in_range_def)
    moreover from le have "(d, time_min) \<le> (d', time_min)"
      by (simp add: less_eq_prod_def)
    ultimately have "(d, time_min) \<le> naive_key x"
      by (rule order_trans [rotated])
    with Some show ?thesis by simp
  qed
  have hi: "(case t of None \<Rightarrow> True | Some d \<Rightarrow> naive_key x \<le> (d, time_max))"
  proof (cases t)
    case None
    then show ?thesis by simp
  next
    case (Some d)
    with assms(1) obtain d' where t': "t' = Some d'" and le: "d' \<le> d"
      by (auto simp: range_within_def to_le_def split: option.splits)
    from assms(2) t' have "naive_key x \<le> (d', time_max)"
      by (simp add: spec_in_range_def)
    moreover from le have "(d', time_max) \<le> (d, time_max)"
      by (simp add: less_eq_prod_def)
    ultimately have "naive_key x \<le> (d, time_max)"
      by (rule order_trans)
    with Some show ?thesis by simp
  qed
  from lo hi show ?thesis by (simp add: spec_in_range_def)
qed

lemma range_check_mono:
  assumes "range_within f' t' f t" and "range_check f' t' x = Inr True"
  shows "range_check f t x = Inr True"
proof -
  from assms(2) have a: "tzinfo x = None \<or> (f' = None \<and> t' = None)" and s: "spec_in_range f' t' x"
    by (simp_all add: range_check_True_iff)
  from assms(1) have "f' = None \<and> t' = None \<Longrightarrow> f = None \<and> t = None"
    by (auto simp: range_within_def from_le_def to_le_def split: option.splits)
  with a have "tzinfo x = None \<or> (f = None \<and> t = None)" by blast
  moreover from assms(1) s have "spec_in_range f t x" by (rule spec_in_range_mono)
  ultimately show ?thesis by (simp add: range_check_True_iff)
qed

lemma keep_item_True_iff:
  "keep_item L np cf ct mf mt af at r = Inr True \<longleftrightarrow>
     name_check L np r = Inr True \<and>
     (\<exists>c m a. parse_time L r ''CreationTime'' = Inr c \<and> parse_time L r ''LastWriteTime'' = Inr m
        \<and> parse_time L r ''LastAccessTime'' = Inr a \<and> range_check cf ct c = Inr True
        \<and> range_check mf mt m = Inr True \<and> range_check af at a = Inr True)"
  unfolding keep_item_def bind_err_def
  by (auto split: sum.splits)

lemma length_filter_mono:
  assumes "\<And>x. x \<in> set xs \<Longrightarrow> P x \<Longrightarrow> Q x"
  shows "length (filter P xs) \<le> length (filter Q xs)"
  using assms by (induction xs) auto

lemma narrowing_length:
  assumes imp: "\<And>r. keep_item L np cf' ct' mf' mt' af' at' r = Inr True
              \<Longrightarrow> keep_item L np cf ct mf mt af at r = Inr True"
    and w: "filter_results L rs np cf ct mf mt af at = Inr w"
    and n: "filter_results L rs np cf' ct' mf' mt' af' at' = Inr n"
  shows "length n \<le> length w"
proof -
  from w have "w = filter (\<lambda>r. keep_item L np cf ct mf mt af at r = Inr True) rs"
    by (simp add: filter_results_Inr_iff)
  moreover from n have "n = filter (\<lambda>r. keep_item L np cf' ct' mf' mt' af' at' r = Inr True) rs"
    by (simp add: filter_results_Inr_iff)
  ultimately show ?thesis using imp by (simp add: length_filter_mono)
qed

section \<open>Malformed records, invalid patterns\<close>

lemma parse_time_malformed: "malformed L r k \<Longrightarrow> parse_time L r k = Inl ValueError"
  by (auto simp: malformed_def parse_time_def split: pyvalue.splits)

lemma parse_time_str_or_missing:
  "str_or_missing r k \<Longrightarrow> parse_time L r k = Inl ValueError \<or> \<not> isl (parse_time L r k)"
  by (auto simp: str_or_missing_def parse_time_def split: pyvalue.splits option.splits)

lemma keep_item_rejected_name:
  "name_check L np r = Inr False \<Longrightarrow> keep_item L np cf ct mf mt af at r = Inr False"
  by (simp add: keep_item_def bind_err_def)

lemma keep_item_malformed:
  assumes "name_check L np r = Inr True"
    and "str_or_missing r ''CreationTime''"
    and "str_or_missing r ''LastWriteTime''"
    and "str_or_missing r ''LastAccessTime''"
    and "malformed L r ''CreationTime'' \<or> malformed L r ''LastWriteTime''
         \<or> malformed L r ''LastAccessTime''"
  shows "keep_item L np cf ct mf mt af at r = Inl ValueError"
proof -
  note p = parse_time_str_or_missing [OF assms(2), of L] parse_time_str_or_missing [OF assms(3), of L]
    parse_time_str_or_missing [OF assms(4), of L]
  from assms(5) have "parse_time L r ''CreationTime'' = Inl ValueError
      \<or> parse_time L r ''LastWriteTime'' = Inl ValueError
      \<or> parse_time L r ''LastAccessTime'' = Inl ValueError"
    by (auto dest: parse_time_malformed)
  with p assms(1) show ?thesis
    unfolding keep_item_def bind_err_def by (auto split: sum.splits)
qed

lemma name_check_invalid_pattern:
  assumes "p \<noteq> []" and "re_compile L p IGNORECASE = None" and "str_or_missing r ''FullName''"
  shows "name_check L (Some p) r = Inl ReError"
  using assms by (auto simp: name_check_def str_or_missing_def split: pyvalue.splits)

lemma name_check_compiled:
  assumes "p \<noteq> []" and "re_compile L p IGNORECASE = Some rx" and "str_or_missing r ''FullName''"
  shows "name_check L (Some p) r = Inr (re_search L rx (basename L (full_name r)))"
  using assms
  by (auto simp: name_check_def str_or_missing_def full_name_def split: pyvalue.splits)

section \<open>Well-formed records\<close>

lemma timestamp_Some_iff: "timestamp L r k = Some t \<longleftrightarrow> parse_time L r k = Inr t"
  by (simp add: timestamp_def split: sum.splits)

lemma keep_item_naive:
  assumes "timestamps_naive L r" and "name_check L np r = Inr b"
  shows "keep_item L np cf ct mf mt af at r =
         Inr (b \<and> spec_range_holds L cf ct r ''CreationTime''
                \<and> spec_range_holds L mf mt r ''LastWriteTime''
                \<and> spec_range_holds L af at r ''LastAccessTime'')"
proof -
  from assms(1) obtain c m a where
    c: "parse_time L r ''CreationTime'' = Inr c" "tzinfo c = None" and
    m: "parse_time L r ''LastWriteTime'' = Inr m" "tzinfo m = None" and
    a: "parse_time L r ''LastAccessTime'' = Inr a" "tzinfo a = None"
    by (auto simp: timestamps_naive_def is_naive_def timestamp_Some_iff split: option.splits)
  have s: "spec_range_holds L f t r ''CreationTime'' = spec_in_range f t c"
    "spec_range_holds L f t r ''LastWriteTime'' = spec_in_range f t m"
    "spec_range_holds L f t r ''LastAccessTime'' = spec_in_range f t a" for f t
    using c m a by (simp_all add: spec_range_holds_def timestamp_def)
  show ?thesis
    by (simp add: keep_item_def bind_err_def assms(2) c m a range_check_naive s)
qed

lemma filter_results_pointwise:
  assumes "\<And>r. r \<in> set rs \<Longrightarrow> keep_item L np cf ct mf mt af at r = Inr (P r)"
  shows "filter_results L rs np cf ct mf mt af at = Inr (filter P rs)"
proof -
  have "\<forall>r \<in> set rs. \<not> isl (keep_item L np cf ct mf mt af at r)"
    using assms by simp
  moreover have "filter P rs = filter (\<lambda>r. keep_item L np cf ct mf mt af at r = Inr True) rs"
    by (rule filter_cong) (simp_all add: assms)
  ultimately show ?thesis by (simp add: filter_results_Inr_iff)
qed

lemma keep_item_unbounded:
  assumes "timestamps_parse L r"
  shows "keep_item L np None None None None None None r = name_check L np r"
proof -
  from assms obtain c m a where
    "parse_time L r ''CreationTime'' = Inr c" "parse_time L r ''LastWriteTime'' = Inr m"
    "parse_time L r ''LastAccessTime'' = Inr a"
    by (auto simp: timestamps_parse_def timestamp_Some_iff)
  then show ?thesis
    by (cases "name_check L np r") (simp_all add: keep_item_def bind_err_def range_check_unbounded)
qed

lemma keep_item_needs_timestamps:
  assumes "\<not> isl (keep_item L None cf ct mf mt af at r)"
  shows "timestamps_parse L r"
  using assms unfolding keep_item_def bind_err_def timestamps_parse_def timestamp_def name_check_def
  by (auto split: sum.splits)

section \<open>Computing the examples\<close>

lemmas model_defs = filter_results_def keep_item_def name_check_def parse_time_def range_check_def
  before_from_def after_to_def dt_lt_def dt_gt_def combine_def naive_key_def time_min_def
  time_max_def bind_err_def dict_get_def replace_Z_def

lemmas lib_defs = lit_lib_def lit_compile_def is_word_char_def ascii_lower_def posix_basename_def
  iso_fromisoformat_def iso_date_def iso_time_def iso_offset_def number_def digit_val_def
  days_in_month_def

lemmas item_defs = mk_item_def alpha_txt_def beta_txt_def report_pdf_def next_day_pdf_def
  no_creation_def utc_txt_def bad_access_def

text \<open>
  A timestamp with the \<^verbatim>\<open>Z\<close> suffix becomes an aware datetime. Without a bound on
  its field it is never compared and the record is returned; with one, the comparison
  with the naive bound raises \<^verbatim>\<open>TypeError\<close>.
\<close>

lemma utc_timestamp_without_bound:
  "filter_results lit_lib [utc_txt] None None None None None None None = Inr [utc_txt]"
  by (simp add: model_defs lib_defs item_defs)

lemma utc_timestamp_with_bound:
  "filter_results lit_lib [utc_txt] None (Some (2022, 1, 1)) None None None None None
     = Inl TypeError"
  by (simp add: model_defs lib_defs item_defs)

section \<open>The claims\<close>

subsection \<open>Empty input\<close>

text \<open>
  C10. On the empty record list \<^verbatim>\<open>filter_results\<close> returns the empty list and raises
  nothing, for every name pattern (a pattern that does not compile included, since the
  pattern and the library are arbitrary here) and every setting of the date bounds.
\<close>

theorem empty_input_returns_empty:
  "filter_results L [] name_pattern cf ct mf mt af at = Inr []"
  by (simp add: filter_results_def)

subsection \<open>The empty pattern\<close>

text \<open>
  C9. With the empty string as name pattern \<^verbatim>\<open>filter_results\<close> does what it does with
  no pattern (\<^verbatim>\<open>None\<close>), for every record list and every setting of the date bounds:
  the same list, or the same exception.
\<close>

theorem empty_pattern_is_no_pattern:
  "filter_results L rs (Some []) cf ct mf mt af at = filter_results L rs None cf ct mf mt af at"
  unfolding filter_results_def
  by (rule filter_loop_keep_cong) (rule keep_item_empty_pattern)

subsection \<open>Order\<close>

text \<open>
  C6. Whenever \<^verbatim>\<open>filter_results\<close> returns a list, that list is a subsequence of the
  input: its records occur in the input, in the same relative order.
\<close>

theorem output_is_subsequence:
  assumes "filter_results L rs np cf ct mf mt af at = Inr out"
  shows "subseq out rs"
  using assms by (simp add: filter_results_Inr_iff)

theorem output_is_subsequence_witness:
  "filter_results lit_lib [alpha_txt, beta_txt, report_pdf] (Some ''t'') None None None None None None
     = Inr [alpha_txt, beta_txt, report_pdf] \<and>
   filter_results lit_lib [alpha_txt, beta_txt, report_pdf] (Some ''A'') None None None None None None
     = Inr [alpha_txt, beta_txt] \<and>
   subseq [alpha_txt, beta_txt] [alpha_txt, beta_txt, report_pdf]"
proof -
  have all: "filter_results lit_lib [alpha_txt, beta_txt, report_pdf] (Some ''t'') None None None
      None None None = Inr [alpha_txt, beta_txt, report_pdf]"
    by (simp add: model_defs lib_defs item_defs)
  have run: "filter_results lit_lib [alpha_txt, beta_txt, report_pdf] (Some ''A'') None None None
      None None None = Inr [alpha_txt, beta_txt]"
    by (simp add: model_defs lib_defs item_defs)
  from all run output_is_subsequence [OF run] show ?thesis by (intro conjI)
qed

subsection \<open>Idempotence\<close>

text \<open>
  C8. Applying \<^verbatim>\<open>filter_results\<close> with the same arguments to the list it returned
  gives that list again; when the first application raises, so does the composition,
  with the same exception.
\<close>

theorem filter_results_idempotent:
  "apply_twice L rs np cf ct mf mt af at = filter_results L rs np cf ct mf mt af at"
proof (cases "filter_results L rs np cf ct mf mt af at")
  case (Inl e)
  then show ?thesis by (simp add: apply_twice_def bind_err_def)
next
  case (Inr out)
  then have ok: "\<forall>r \<in> set rs. \<not> isl (keep_item L np cf ct mf mt af at r)"
    and out: "out = filter (\<lambda>r. keep_item L np cf ct mf mt af at r = Inr True) rs"
    by (simp_all add: filter_results_Inr_iff)
  have "filter_results L out np cf ct mf mt af at = Inr out"
    unfolding filter_results_Inr_iff using ok out by auto
  with Inr show ?thesis by (simp add: apply_twice_def bind_err_def)
qed

subsection \<open>Narrowing a date range\<close>

text \<open>
  C7. For a fixed record list and two calls that differ in one date range only (the
  creation, the modification or the access range), the second range lying within the
  first: when both calls return a list, the list of the narrower call is not longer than
  the list of the wider one.
\<close>

theorem narrowing_never_grows:
  assumes "range_within f' t' f t"
  shows "(filter_results L rs np f t mf mt af at = Inr w1 \<longrightarrow>
          filter_results L rs np f' t' mf mt af at = Inr n1 \<longrightarrow> length n1 \<le> length w1) \<and>
         (filter_results L rs np cf ct f t af at = Inr w2 \<longrightarrow>
          filter_results L rs np cf ct f' t' af at = Inr n2 \<longrightarrow> length n2 \<le> length w2) \<and>
         (filter_results L rs np cf ct mf mt f t = Inr w3 \<longrightarrow>
          filter_results L rs np cf ct mf mt f' t' = Inr n3 \<longrightarrow> length n3 \<le> length w3)"
proof -
  note mono = range_check_mono [OF assms]
  have c: "keep_item L np f t mf mt af at r = Inr True"
    if "keep_item L np f' t' mf mt af at r = Inr True" for r
    using that mono unfolding keep_item_True_iff by blast
  have m: "keep_item L np cf ct f t af at r = Inr True"
    if "keep_item L np cf ct f' t' af at r = Inr True" for r
    using that mono unfolding keep_item_True_iff by blast
  have a: "keep_item L np cf ct mf mt f t r = Inr True"
    if "keep_item L np cf ct mf mt f' t' r = Inr True" for r
    using that mono unfolding keep_item_True_iff by blast
  show ?thesis
  proof (intro conjI impI)
    assume "filter_results L rs np f t mf mt af at = Inr w1"
      and "filter_results L rs np f' t' mf mt af at = Inr n1"
    with c show "length n1 \<le> length w1"
      by (rule narrowing_length [of L np f' t' mf mt af at f t mf mt af at])
  next
    assume "filter_results L rs np cf ct f t af at = Inr w2"
      and "filter_results L rs np cf ct f' t' af at = Inr n2"
    with m show "length n2 \<le> length w2"
      by (rule narrowing_length [of L np cf ct f' t' af at cf ct f t af at])
  next
    assume "filter_results L rs np cf ct mf mt f t = Inr w3"
      and "filter_results L rs np cf ct mf mt f' t' = Inr n3"
    with a show "length n3 \<le> length w3"
      by (rule narrowing_length [of L np cf ct mf mt f' t' cf ct mf mt f t])
  qed
qed

theorem narrowing_never_grows_witness:
  "range_within (Some (2022, 4, 1)) (Some (2022, 12, 31)) (Some (2022, 1, 1)) None \<and>
   filter_results lit_lib [alpha_txt, beta_txt] None (Some (2022, 1, 1)) None None None None None
     = Inr [alpha_txt, beta_txt] \<and>
   filter_results lit_lib [alpha_txt, beta_txt] None (Some (2022, 4, 1)) (Some (2022, 12, 31))
     None None None None = Inr [beta_txt] \<and>
   length [beta_txt] \<le> length [alpha_txt, beta_txt] \<and>
   filter_results lit_lib [alpha_txt, beta_txt] None None None (Some (2022, 1, 1)) None None None
     = Inr [alpha_txt, beta_txt] \<and>
   filter_results lit_lib [alpha_txt, beta_txt] None None None (Some (2022, 4, 1))
     (Some (2022, 12, 31)) None None = Inr [beta_txt] \<and>
   filter_results lit_lib [alpha_txt, beta_txt] None None None None None (Some (2022, 1, 1)) None
     = Inr [alpha_txt, beta_txt] \<and>
   filter_results lit_lib [alpha_txt, beta_txt] None None None None None (Some (2022, 4, 1))
     (Some (2022, 12, 31)) = Inr [beta_txt]"
proof -
  have within: "range_within (Some (2022, 4, 1)) (Some (2022, 12, 31)) (Some (2022, 1, 1)) None"
    by (simp add: range_within_def from_le_def to_le_def)
  have w1: "filter_results lit_lib [alpha_txt, beta_txt] None (Some (2022, 1, 1)) None None None
      None None = Inr [alpha_txt, beta_txt]"
    by (simp add: model_defs lib_defs item_defs)
  have n1: "filter_results lit_lib [alpha_txt, beta_txt] None (Some (2022, 4, 1))
      (Some (2022, 12, 31)) None None None None = Inr [beta_txt]"
    by (simp add: model_defs lib_defs item_defs)
  have w2: "filter_results lit_lib [alpha_txt, beta_txt] None None None (Some (2022, 1, 1)) None
      None None = Inr [alpha_txt, beta_txt]"
    by (simp add: model_defs lib_defs item_defs)
  have n2: "filter_results lit_lib [alpha_txt, beta_txt] None None None (Some (2022, 4, 1))
      (Some (2022, 12, 31)) None None = Inr [beta_txt]"
    by (simp add: model_defs lib_defs item_defs)
  have w3: "filter_results lit_lib [alpha_txt, beta_txt] None None None None None
      (Some (2022, 1, 1)) None = Inr [alpha_txt, beta_txt]"
    by (simp add: model_defs lib_defs item_defs)
  have n3: "filter_results lit_lib [alpha_txt, beta_txt] None None None None None
      (Some (2022, 4, 1)) (Some (2022, 12, 31)) = Inr [beta_txt]"
    by (simp add: model_defs lib_defs item_defs)
  have len: "length [beta_txt] \<le> length [alpha_txt, beta_txt]"
    using narrowing_never_grows [OF within, THEN conjunct1, rule_format, OF w1 n1] .
  from within w1 n1 len w2 n2 w3 n3 show ?thesis by (intro conjI)
qed

subsection \<open>Missing and malformed timestamps\<close>

text \<open>
  C1, as stated, fails on the code: a record whose \<^verbatim>\<open>CreationTime\<close> key is missing,
  filtered by a name pattern its basename matches and by a modification range its
  modification time lies in (no bound refers to the missing field), is not returned;
  the call raises \<^verbatim>\<open>ValueError\<close>.
\<close>

theorem malformed_timestamp_counterexample:
  "malformed lit_lib no_creation ''CreationTime'' \<and>
   name_check lit_lib (Some ''old'') no_creation = Inr True \<and>
   spec_range_holds lit_lib (Some (2022, 1, 1)) (Some (2022, 1, 1)) no_creation ''LastWriteTime'' \<and>
   filter_results lit_lib [no_creation] (Some ''old'') None None (Some (2022, 1, 1))
     (Some (2022, 1, 1)) None None = Inl ValueError"
  by (simp add: malformed_def spec_range_holds_def spec_in_range_def timestamp_def model_defs
      lib_defs item_defs)

text \<open>
  C1, amended. The three timestamps of a record are converted as soon as the record has
  passed the name filter, whatever date bounds are set. So, for a record whose timestamp
  fields are strings or missing, one of them missing or not parseable, coming after
  records that raise nothing: when the record passes the name filter (or there is none)
  the call raises \<^verbatim>\<open>ValueError\<close> and returns no list; when the name filter rejects the
  record, the record is skipped and the call goes on as if it were not in the list.
\<close>

theorem malformed_timestamp_raises:
  assumes "filter_results L pre np cf ct mf mt af at = Inr out"
    and "str_or_missing r ''CreationTime''"
    and "str_or_missing r ''LastWriteTime''"
    and "str_or_missing r ''LastAccessTime''"
    and "malformed L r ''CreationTime'' \<or> malformed L r ''LastWriteTime''
         \<or> malformed L r ''LastAccessTime''"
  shows "(name_check L np r = Inr True \<longrightarrow>
            filter_results L (pre @ r # post) np cf ct mf mt af at = Inl ValueError) \<and>
         (name_check L np r = Inr False \<longrightarrow>
            filter_results L (pre @ r # post) np cf ct mf mt af at =
            filter_results L (pre @ post) np cf ct mf mt af at)"
proof (intro conjI impI)
  assume "name_check L np r = Inr True"
  then have "keep_item L np cf ct mf mt af at r = Inl ValueError"
    using assms(2-5) by (rule keep_item_malformed)
  moreover from assms(1) have "\<forall>x \<in> set pre. \<not> isl (keep_item L np cf ct mf mt af at x)"
    by (simp add: filter_results_Inr_iff)
  ultimately show "filter_results L (pre @ r # post) np cf ct mf mt af at = Inl ValueError"
    unfolding filter_results_def by (rule filter_loop_raises [rotated])
next
  assume "name_check L np r = Inr False"
  then have "keep_item L np cf ct mf mt af at r = Inr False"
    by (rule keep_item_rejected_name)
  then show "filter_results L (pre @ r # post) np cf ct mf mt af at =
             filter_results L (pre @ post) np cf ct mf mt af at"
    unfolding filter_results_def by (rule filter_loop_skips)
qed

theorem malformed_timestamp_raises_witness:
  "filter_results lit_lib [alpha_txt] None None None None None None None = Inr [alpha_txt] \<and>
   malformed lit_lib no_creation ''CreationTime'' \<and>
   name_check lit_lib None no_creation = Inr True \<and>
   filter_results lit_lib ([alpha_txt] @ no_creation # [beta_txt]) None None None None None None
     None = Inl ValueError \<and>
   filter_results lit_lib [alpha_txt] (Some ''alpha'') None None None None None None
     = Inr [alpha_txt] \<and>
   name_check lit_lib (Some ''alpha'') no_creation = Inr False \<and>
   filter_results lit_lib ([alpha_txt] @ no_creation # [beta_txt]) (Some ''alpha'') None None None
     None None None =
   filter_results lit_lib ([alpha_txt] @ [beta_txt]) (Some ''alpha'') None None None None None None"
proof -
  have pre: "filter_results lit_lib [alpha_txt] None None None None None None None = Inr [alpha_txt]"
    by (simp add: model_defs lib_defs item_defs)
  have pre': "filter_results lit_lib [alpha_txt] (Some ''alpha'') None None None None None None
      = Inr [alpha_txt]"
    by (simp add: model_defs lib_defs item_defs)
  have c: "str_or_missing no_creation ''CreationTime''"
    and m: "str_or_missing no_creation ''LastWriteTime''"
    and a: "str_or_missing no_creation ''LastAccessTime''"
    by (simp_all add: str_or_missing_def dict_get_def item_defs)
  have bad: "malformed lit_lib no_creation ''CreationTime''"
    by (simp add: malformed_def dict_get_def replace_Z_def lib_defs item_defs)
  then have one: "malformed lit_lib no_creation ''CreationTime''
      \<or> malformed lit_lib no_creation ''LastWriteTime''
      \<or> malformed lit_lib no_creation ''LastAccessTime''"
    by (rule disjI1)
  have named: "name_check lit_lib None no_creation = Inr True"
    by (simp add: name_check_def)
  have rejected: "name_check lit_lib (Some ''alpha'') no_creation = Inr False"
    by (simp add: name_check_def dict_get_def lib_defs item_defs)
  have raises: "filter_results lit_lib ([alpha_txt] @ no_creation # [beta_txt]) None None None None
      None None None = Inl ValueError"
    using malformed_timestamp_raises [OF pre c m a one, THEN conjunct1, rule_format, OF named] .
  have skipped: "filter_results lit_lib ([alpha_txt] @ no_creation # [beta_txt]) (Some ''alpha'')
      None None None None None None =
    filter_results lit_lib ([alpha_txt] @ [beta_txt]) (Some ''alpha'') None None None None None None"
    using malformed_timestamp_raises [OF pre' c m a one, THEN conjunct2, rule_format, OF rejected] .
  from pre bad named raises pre' rejected skipped show ?thesis by (intro conjI)
qed

subsection \<open>A pattern that does not compile\<close>

text \<open>
  C2, as stated, fails on the code: with the pattern \<^verbatim>\<open>[\<close>, which the library rejects,
  and the empty record list, nothing is raised and the empty list is returned.
\<close>

theorem invalid_pattern_counterexample:
  "re_compile lit_lib ''['' IGNORECASE = None \<and>
   filter_results lit_lib [] (Some ''['') None None None None None None = Inr []"
  by (simp add: filter_results_def lib_defs)

text \<open>
  C2, amended. The pattern is compiled inside the loop, by \<^verbatim>\<open>re.search\<close> on each
  record. So, for a non-empty pattern that does not compile and a non-empty record list
  whose first record has a string or no \<^verbatim>\<open>FullName\<close>, the call raises the error of
  the regular-expression library at that first record: before any timestamp is parsed,
  before any date test and before any record is kept, whatever the timestamps and the
  date bounds are. On the empty record list nothing is raised and the empty list is
  returned.
\<close>

theorem invalid_pattern_raises_at_first_record:
  assumes "p \<noteq> []" and "re_compile L p IGNORECASE = None" and "str_or_missing r ''FullName''"
  shows "filter_results L (r # rs) (Some p) cf ct mf mt af at = Inl ReError \<and>
         filter_results L [] (Some p) cf ct mf mt af at = Inr []"
proof -
  from assms have "name_check L (Some p) r = Inl ReError"
    by (rule name_check_invalid_pattern)
  then have "keep_item L (Some p) cf ct mf mt af at r = Inl ReError"
    by (simp add: keep_item_def bind_err_def)
  then show ?thesis by (simp add: filter_results_def)
qed

theorem invalid_pattern_raises_at_first_record_witness:
  "''['' \<noteq> [] \<and> re_compile lit_lib ''['' IGNORECASE = None \<and>
   str_or_missing no_creation ''FullName'' \<and>
   filter_results lit_lib (no_creation # [alpha_txt]) (Some ''['') (Some (2022, 1, 1)) None None
     None None None = Inl ReError \<and>
   filter_results lit_lib [] (Some ''['') (Some (2022, 1, 1)) None None None None None = Inr []"
proof -
  have p: "''['' \<noteq> []" by simp
  have bad: "re_compile lit_lib ''['' IGNORECASE = None"
    by (simp add: lib_defs)
  have str: "str_or_missing no_creation ''FullName''"
    by (simp add: str_or_missing_def dict_get_def item_defs)
  note run = invalid_pattern_raises_at_first_record [OF p bad str, of "[alpha_txt]"
      "Some (2022, 1, 1)" None None None None None]
  from p bad str run show ?thesis by blast
qed

subsection \<open>The identity filter\<close>

text \<open>
  C4, as stated, fails on the code: with no field of the filter set, a list holding a
  record whose \<^verbatim>\<open>CreationTime\<close> key is missing is not returned; the call raises
  \<^verbatim>\<open>ValueError\<close>.
\<close>

theorem identity_filter_counterexample:
  "filter_results lit_lib [alpha_txt, no_creation] None None None None None None None
     = Inl ValueError"
  by (simp add: model_defs lib_defs item_defs)

text \<open>
  C4, amended. With no field of the filter set, \<^verbatim>\<open>filter_results\<close> returns the input
  list, unchanged and in the same order, exactly when the three timestamps of every
  record parse; the timestamps are converted even though no date bound is set.
\<close>

theorem identity_filter:
  "filter_results L rs None None None None None None None = Inr rs \<longleftrightarrow>
     (\<forall>r \<in> set rs. timestamps_parse L r)"
proof
  assume "filter_results L rs None None None None None None None = Inr rs"
  then have "\<forall>r \<in> set rs. \<not> isl (keep_item L None None None None None None None r)"
    by (simp add: filter_results_Inr_iff)
  then show "\<forall>r \<in> set rs. timestamps_parse L r"
    by (blast intro: keep_item_needs_timestamps)
next
  assume ok: "\<forall>r \<in> set rs. timestamps_parse L r"
  have "filter_results L rs None None None None None None None = Inr (filter (\<lambda>r. True) rs)"
  proof (rule filter_results_pointwise)
    fix r assume "r \<in> set rs"
    with ok have "timestamps_parse L r" by blast
    then show "keep_item L None None None None None None None r = Inr True"
      by (simp add: keep_item_unbounded name_check_def)
  qed
  then show "filter_results L rs None None None None None None None = Inr rs" by simp
qed

theorem identity_filter_witness:
  "timestamps_parse lit_lib alpha_txt \<and> timestamps_parse lit_lib utc_txt \<and>
   timestamps_parse lit_lib beta_txt \<and>
   filter_results lit_lib [alpha_txt, utc_txt, beta_txt] None None None None None None None
     = Inr [alpha_txt, utc_txt, beta_txt]"
proof -
  have a: "timestamps_parse lit_lib alpha_txt"
    by (simp add: timestamps_parse_def timestamp_def parse_time_def dict_get_def replace_Z_def
        lib_defs item_defs)
  have u: "timestamps_parse lit_lib utc_txt"
    by (simp add: timestamps_parse_def timestamp_def parse_time_def dict_get_def replace_Z_def
        lib_defs item_defs)
  have b: "timestamps_parse lit_lib beta_txt"
    by (simp add: timestamps_parse_def timestamp_def parse_time_def dict_get_def replace_Z_def
        lib_defs item_defs)
  from a u b have "\<forall>r \<in> set [alpha_txt, utc_txt, beta_txt]. timestamps_parse lit_lib r"
    by simp
  then have "filter_results lit_lib [alpha_txt, utc_txt, beta_txt] None None None None None None
      None = Inr [alpha_txt, utc_txt, beta_txt]"
    by (rule identity_filter [THEN iffD2])
  with a u b show ?thesis by (intro conjI)
qed

subsection \<open>The date ranges\<close>

text \<open>
  C3, as stated, fails on the code: a record whose modification time parses and lies in
  the modification range, the only range set, is not returned when its access time is
  not a timestamp; the call raises \<^verbatim>\<open>ValueError\<close>.
\<close>

theorem range_filters_counterexample:
  "spec_range_holds lit_lib (Some (2022, 1, 1)) (Some (2022, 1, 1)) bad_access ''LastWriteTime'' \<and>
   filter_results lit_lib [bad_access] None None None (Some (2022, 1, 1)) (Some (2022, 1, 1))
     None None = Inl ValueError"
  by (simp add: spec_range_holds_def spec_in_range_def timestamp_def model_defs lib_defs item_defs)

text \<open>
  C3, amended. For records whose three timestamps all parse, to naive datetimes, and on
  which the name filter raises nothing: a record is returned exactly when it passes the
  name filter and, for each of the creation, modification and access ranges, its
  timestamp is at or after 00:00:00.000 of the lower bound when there is one and at or
  before 23:59:59.999999 of the upper bound when there is one; the order of the input is
  kept. In particular a record modified at 2022-01-01T23:59:59.999999 is returned for the
  modification range from 2022-01-01 to 2022-01-01, and one modified at
  2022-01-02T00:00:00 is not.
\<close>

theorem range_filters_on_naive_timestamps:
  assumes "\<forall>r \<in> set rs. timestamps_naive L r"
    and "\<forall>r \<in> set rs. \<not> isl (name_check L np r)"
  shows "filter_results L rs np cf ct mf mt af at =
           Inr (filter (\<lambda>r. name_check L np r = Inr True
                    \<and> spec_range_holds L cf ct r ''CreationTime''
                    \<and> spec_range_holds L mf mt r ''LastWriteTime''
                    \<and> spec_range_holds L af at r ''LastAccessTime'') rs) \<and>
         timestamp lit_lib report_pdf ''LastWriteTime'' =
           Some \<lparr>dt_date = (2022, 1, 1), dt_time = (23, 59, 59, 999999), tzinfo = None\<rparr> \<and>
         filter_results lit_lib [report_pdf] None None None (Some (2022, 1, 1)) (Some (2022, 1, 1))
           None None = Inr [report_pdf] \<and>
         timestamp lit_lib next_day_pdf ''LastWriteTime'' =
           Some \<lparr>dt_date = (2022, 1, 2), dt_time = (0, 0, 0, 0), tzinfo = None\<rparr> \<and>
         filter_results lit_lib [next_day_pdf] None None None (Some (2022, 1, 1))
           (Some (2022, 1, 1)) None None = Inr []"
proof -
  have general: "filter_results L rs np cf ct mf mt af at =
      Inr (filter (\<lambda>r. name_check L np r = Inr True
               \<and> spec_range_holds L cf ct r ''CreationTime''
               \<and> spec_range_holds L mf mt r ''LastWriteTime''
               \<and> spec_range_holds L af at r ''LastAccessTime'') rs)"
  proof (rule filter_results_pointwise)
    fix r assume r: "r \<in> set rs"
    with assms(2) obtain b where b: "name_check L np r = Inr b"
      by (cases "name_check L np r") auto
    from r assms(1) have "timestamps_naive L r" by blast
    from keep_item_naive [OF this b] b
    show "keep_item L np cf ct mf mt af at r =
        Inr (name_check L np r = Inr True
             \<and> spec_range_holds L cf ct r ''CreationTime''
             \<and> spec_range_holds L mf mt r ''LastWriteTime''
             \<and> spec_range_holds L af at r ''LastAccessTime'')"
      by simp
  qed
  have t1: "timestamp lit_lib report_pdf ''LastWriteTime'' =
      Some \<lparr>dt_date = (2022, 1, 1), dt_time = (23, 59, 59, 999999), tzinfo = None\<rparr>"
    by (simp add: timestamp_def parse_time_def dict_get_def replace_Z_def lib_defs item_defs)
  have r1: "filter_results lit_lib [report_pdf] None None None (Some (2022, 1, 1))
      (Some (2022, 1, 1)) None None = Inr [report_pdf]"
    by (simp add: model_defs lib_defs item_defs)
  have t2: "timestamp lit_lib next_day_pdf ''LastWriteTime'' =
      Some \<lparr>dt_date = (2022, 1, 2), dt_time = (0, 0, 0, 0), tzinfo = None\<rparr>"
    by (simp add: timestamp_def parse_time_def dict_get_def replace_Z_def lib_defs item_defs)
  have r2: "filter_results lit_lib [next_day_pdf] None None None (Some (2022, 1, 1))
      (Some (2022, 1, 1)) None None = Inr []"
    by (simp add: model_defs lib_defs item_defs)
  from general t1 r1 t2 r2 show ?thesis by (intro conjI)
qed

theorem range_filters_on_naive_timestamps_witness:
  "timestamps_naive lit_lib alpha_txt \<and> timestamps_naive lit_lib beta_txt \<and>
   timestamps_naive lit_lib report_pdf \<and>
   name_check lit_lib (Some ''t'') alpha_txt = Inr True \<and>
   name_check lit_lib (Some ''t'') beta_txt = Inr True \<and>
   name_check lit_lib (Some ''t'') report_pdf = Inr True \<and>
   filter_results lit_lib [alpha_txt, beta_txt, report_pdf] (Some ''t'') (Some (2022, 1, 1))
     (Some (2022, 12, 31)) (Some (2022, 3, 1)) (Some (2022, 3, 1)) None None = Inr [alpha_txt]"
proof -
  have a: "timestamps_naive lit_lib alpha_txt"
    by (simp add: timestamps_naive_def is_naive_def timestamp_def parse_time_def dict_get_def
        replace_Z_def lib_defs item_defs)
  have b: "timestamps_naive lit_lib beta_txt"
    by (simp add: timestamps_naive_def is_naive_def timestamp_def parse_time_def dict_get_def
        replace_Z_def lib_defs item_defs)
  have r: "timestamps_naive lit_lib report_pdf"
    by (simp add: timestamps_naive_def is_naive_def timestamp_def parse_time_def dict_get_def
        replace_Z_def lib_defs item_defs)
  have na: "name_check lit_lib (Some ''t'') alpha_txt = Inr True"
    by (simp add: name_check_def dict_get_def lib_defs item_defs)
  have nb: "name_check lit_lib (Some ''t'') beta_txt = Inr True"
    by (simp add: name_check_def dict_get_def lib_defs item_defs)
  have nr: "name_check lit_lib (Some ''t'') report_pdf = Inr True"
    by (simp add: name_check_def dict_get_def lib_defs item_defs)
  from a b r have naive: "\<forall>x \<in> set [alpha_txt, beta_txt, report_pdf]. timestamps_naive lit_lib x"
    by simp
  from na nb nr
  have named: "\<forall>x \<in> set [alpha_txt, beta_txt, report_pdf]. \<not> isl (name_check lit_lib (Some ''t'') x)"
    by simp
  have kept: "filter (\<lambda>x. name_check lit_lib (Some ''t'') x = Inr True
        \<and> spec_range_holds lit_lib (Some (2022, 1, 1)) (Some (2022, 12, 31)) x ''CreationTime''
        \<and> spec_range_holds lit_lib (Some (2022, 3, 1)) (Some (2022, 3, 1)) x ''LastWriteTime''
        \<and> spec_range_holds lit_lib None None x ''LastAccessTime'')
      [alpha_txt, beta_txt, report_pdf] = [alpha_txt]"
    by (simp add: spec_range_holds_def spec_in_range_def timestamp_def model_defs lib_defs
        item_defs)
  have "filter_results lit_lib [alpha_txt, beta_txt, report_pdf] (Some ''t'') (Some (2022, 1, 1))
      (Some (2022, 12, 31)) (Some (2022, 3, 1)) (Some (2022, 3, 1)) None None =
    Inr (filter (\<lambda>x. name_check lit_lib (Some ''t'') x = Inr True
        \<and> spec_range_holds lit_lib (Some (2022, 1, 1)) (Some (2022, 12, 31)) x ''CreationTime''
        \<and> spec_range_holds lit_lib (Some (2022, 3, 1)) (Some (2022, 3, 1)) x ''LastWriteTime''
        \<and> spec_range_holds lit_lib None None x ''LastAccessTime'')
      [alpha_txt, beta_txt, report_pdf])"
    by (rule range_filters_on_naive_timestamps [OF naive named, THEN conjunct1])
  then have "filter_results lit_lib [alpha_txt, beta_txt, report_pdf] (Some ''t'')
      (Some (2022, 1, 1)) (Some (2022, 12, 31)) (Some (2022, 3, 1)) (Some (2022, 3, 1)) None None
      = Inr [alpha_txt]"
    by (simp only: kept)
  with a b r na nb nr show ?thesis by (intro conjI)
qed

subsection \<open>The name filter\<close>

text \<open>
  C5. With a name pattern, the text searched is the basename of \<^verbatim>\<open>FullName\<close>, never
  the full path, and the search is \<^verbatim>\<open>re.search\<close> under \<^verbatim>\<open>re.IGNORECASE\<close>: a
  record passes exactly when the compiled pattern has a match somewhere in the basename.
  So, for a pattern that compiles and records with a string or no \<^verbatim>\<open>FullName\<close>:
  whatever the date bounds, every record returned has such a match; and with no date
  bound, on records whose timestamps parse, the records returned are exactly those with
  such a match. For example the pattern \<^verbatim>\<open>report\<close> keeps the record named
  \<^verbatim>\<open>/data/Report_2022.pdf\<close>, and the pattern \<^verbatim>\<open>data\<close>, found in its directory only,
  does not.
\<close>

theorem name_filter_on_basename:
  assumes "p \<noteq> []" and "re_compile L p IGNORECASE = Some rx"
    and "\<forall>r \<in> set rs. str_or_missing r ''FullName''"
  shows "(filter_results L rs (Some p) cf ct mf mt af at = Inr out \<longrightarrow>
            (\<forall>r \<in> set out. re_search L rx (basename L (full_name r)))) \<and>
         ((\<forall>r \<in> set rs. timestamps_parse L r) \<longrightarrow>
            filter_results L rs (Some p) None None None None None None =
              Inr (filter (\<lambda>r. re_search L rx (basename L (full_name r))) rs)) \<and>
         full_name report_pdf = ''/data/Report_2022.pdf'' \<and>
         basename lit_lib (full_name report_pdf) = ''Report_2022.pdf'' \<and>
         filter_results lit_lib [report_pdf] (Some ''report'') None None None None None None
           = Inr [report_pdf] \<and>
         filter_results lit_lib [report_pdf] (Some ''data'') None None None None None None = Inr []"
proof -
  have name: "name_check L (Some p) r = Inr (re_search L rx (basename L (full_name r)))"
    if "r \<in> set rs" for r
    using assms that by (blast intro: name_check_compiled)
  have returned: "\<forall>r \<in> set out. re_search L rx (basename L (full_name r))"
    if "filter_results L rs (Some p) cf ct mf mt af at = Inr out"
  proof
    fix r assume "r \<in> set out"
    with that have "r \<in> set rs" and "keep_item L (Some p) cf ct mf mt af at r = Inr True"
      by (simp_all add: filter_results_Inr_iff)
    then show "re_search L rx (basename L (full_name r))"
      using name [of r] by (simp add: keep_item_True_iff)
  qed
  have unbounded: "filter_results L rs (Some p) None None None None None None =
      Inr (filter (\<lambda>r. re_search L rx (basename L (full_name r))) rs)"
    if "\<forall>r \<in> set rs. timestamps_parse L r"
  proof (rule filter_results_pointwise)
    fix r assume "r \<in> set rs"
    with that name show "keep_item L (Some p) None None None None None None r =
        Inr (re_search L rx (basename L (full_name r)))"
      by (simp add: keep_item_unbounded)
  qed
  have f: "full_name report_pdf = ''/data/Report_2022.pdf''"
    by (simp add: full_name_def dict_get_def item_defs)
  have b: "basename lit_lib (full_name report_pdf) = ''Report_2022.pdf''"
    by (simp add: f lib_defs)
  have r1: "filter_results lit_lib [report_pdf] (Some ''report'') None None None None None None
      = Inr [report_pdf]"
    by (simp add: model_defs lib_defs item_defs)
  have r2: "filter_results lit_lib [report_pdf] (Some ''data'') None None None None None None
      = Inr []"
    by (simp add: model_defs lib_defs item_defs)
  from returned unbounded f b r1 r2 show ?thesis by blast
qed

theorem name_filter_on_basename_witness:
  "''2022'' \<noteq> [] \<and> re_compile lit_lib ''2022'' IGNORECASE = Some (LitRx ''2022'' IGNORECASE) \<and>
   str_or_missing alpha_txt ''FullName'' \<and> str_or_missing report_pdf ''FullName'' \<and>
   timestamps_parse lit_lib alpha_txt \<and> timestamps_parse lit_lib report_pdf \<and>
   filter_results lit_lib [alpha_txt, report_pdf] (Some ''2022'') None None None None None None
     = Inr [report_pdf] \<and>
   filter_results lit_lib [alpha_txt, report_pdf] (Some ''2022'') None None None None None None
     = Inr (filter (\<lambda>r. re_search lit_lib (LitRx ''2022'' IGNORECASE) (basename lit_lib (full_name r)))
         [alpha_txt, report_pdf]) \<and>
   re_search lit_lib (LitRx ''2022'' IGNORECASE) (basename lit_lib (full_name report_pdf))"
proof -
  have p: "''2022'' \<noteq> []" by simp
  have rx: "re_compile lit_lib ''2022'' IGNORECASE = Some (LitRx ''2022'' IGNORECASE)"
    by (simp add: lib_defs)
  have sa: "str_or_missing alpha_txt ''FullName''"
    by (simp add: str_or_missing_def dict_get_def item_defs)
  have sr: "str_or_missing report_pdf ''FullName''"
    by (simp add: str_or_missing_def dict_get_def item_defs)
  from sa sr have str: "\<forall>r \<in> set [alpha_txt, report_pdf]. str_or_missing r ''FullName''"
    by simp
  have ta: "timestamps_parse lit_lib alpha_txt"
    by (simp add: timestamps_parse_def timestamp_def parse_time_def dict_get_def replace_Z_def
        lib_defs item_defs)
  have tr: "timestamps_parse lit_lib report_pdf"
    by (simp add: timestamps_parse_def timestamp_def parse_time_def dict_get_def replace_Z_def
        lib_defs item_defs)
  from ta tr have parse: "\<forall>r \<in> set [alpha_txt, report_pdf]. timestamps_parse lit_lib r"
    by simp
  have run: "filter_results lit_lib [alpha_txt, report_pdf] (Some ''2022'') None None None None
      None None = Inr [report_pdf]"
    by (simp add: model_defs lib_defs item_defs)
  note inst = name_filter_on_basename [OF p rx str, of None None None None None None "[report_pdf]"]
  from inst run have "\<forall>r \<in> set [report_pdf].
      re_search lit_lib (LitRx ''2022'' IGNORECASE) (basename lit_lib (full_name r))"
    by blast
  then have matched:
    "re_search lit_lib (LitRx ''2022'' IGNORECASE) (basename lit_lib (full_name report_pdf))"
    by simp
  from inst parse have exact: "filter_results lit_lib [alpha_txt, report_pdf] (Some ''2022'') None
      None None None None None =
    Inr (filter (\<lambda>r. re_search lit_lib (LitRx ''2022'' IGNORECASE) (basename lit_lib (full_name r)))
      [alpha_txt, report_pdf])"
    by blast
  from p rx sa sr ta tr run exact matched show ?thesis by (intro conjI)
qed

end
